theory Spec2Isabelle
  imports Main "HOL-Library.AList"
begin

section \<open>JavaScript values\<close>

text \<open>
  The data source handles values of type \<open>any\<close>: predicate values, record fields and
  identifiers. \<open>VNum\<close> carries the whole numbers (rendered in decimal by a template
  literal); an object of field values is an association list in insertion order.
\<close>

datatype jsval = VUndefined | VNull | VBool bool | VNum int | VStr string | VArr "jsval list"

type_synonym obj = "(string \<times> jsval) list"

text \<open>JavaScript truthiness, as tested by \<open>if (x)\<close> and \<open>!x\<close>.\<close>

fun truthy :: "jsval \<Rightarrow> bool" where
  "truthy VUndefined = False"
| "truthy VNull = False"
| "truthy (VBool b) = b"
| "truthy (VNum n) = (n \<noteq> 0)"
| "truthy (VStr s) = (s \<noteq> [])"
| "truthy (VArr xs) = True"

definition digit_char :: "nat \<Rightarrow> char" where
  "digit_char d = ''0123456789'' ! d"

fun dec_of_nat :: "nat \<Rightarrow> string" where
  "dec_of_nat n = (if n < 10 then [digit_char n] else dec_of_nat (n div 10) @ [digit_char (n mod 10)])"

declare dec_of_nat.simps [simp del]

definition dec_of_int :: "int \<Rightarrow> string" where
  "dec_of_int i = (if i < 0 then CHR ''-'' # dec_of_nat (nat (- i)) else dec_of_nat (nat i))"

fun join_with :: "string \<Rightarrow> string list \<Rightarrow> string" where
  "join_with sep [] = []"
| "join_with sep [x] = x"
| "join_with sep (x # y # ys) = x @ sep @ join_with sep (y # ys)"

text \<open>
  \<open>js_string v\<close> is the string a template literal \<open>`${v}`\<close> produces. An array is its
  elements joined by commas, with \<open>null\<close> and \<open>undefined\<close> elements rendered empty.
\<close>

fun js_string :: "jsval \<Rightarrow> string" where
  "js_string VUndefined = ''undefined''"
| "js_string VNull = ''null''"
| "js_string (VBool b) = (if b then ''true'' else ''false'')"
| "js_string (VNum n) = dec_of_int n"
| "js_string (VStr s) = s"
| "js_string (VArr xs) =
     join_with '','' (map (\<lambda>x. case x of VUndefined \<Rightarrow> [] | VNull \<Rightarrow> [] | _ \<Rightarrow> js_string x) xs)"

text \<open>Property access \<open>data[key]\<close>: \<open>undefined\<close> when the key is absent.\<close>

definition get_prop :: "obj \<Rightarrow> string \<Rightarrow> jsval" where
  "get_prop data k = (case map_of data k of None \<Rightarrow> VUndefined | Some v \<Rightarrow> v)"

text \<open>The object literal \<open>{ id: rid, ...fields }\<close>: a later key overrides in place.\<close>

definition spread_id :: "jsval \<Rightarrow> obj \<Rightarrow> obj" where
  "spread_id rid flds = fold (\<lambda>(k, v). AList.update k v) flds [(''id'', rid)]"

section \<open>Data model\<close>

datatype DataSourceColumnType = STRING | NUMBER | BOOLEAN | DATE | ENUM | JSON | UNKNOWN

datatype WhereOperator =
  equals | not_equals | gt | gte | lt | lte | like | not_like | search
  | op_in | not_in | op_null | not_null

text \<open>
  The native field types are the ones \<open>fieldMapper\<close> names; \<open>AT_OTHER\<close> stands for any
  native type outside that list.
\<close>

datatype AirtableColumnType =
  AT_EMAIL | AT_URL | AT_BARCODE | AT_MULTILINE_TEXT | AT_RICH_TEXT | AT_DURATION
  | AT_PHONE_NUMBER | AT_SINGLE_LINE_TEXT
  | AT_AUTO_NUMBER | AT_NUMBER | AT_COUNT | AT_PERCENT | AT_CURRENCY | AT_RATING
  | AT_CHECKBOX
  | AT_DATE | AT_DATE_TIME | AT_CREATED_TIME | AT_LAST_MODIFIED_TIME
  | AT_MULTIPLE_ATTACHMENTS | AT_MULTIPLE_COLLABORATORS | AT_MULTIPLE_RECORD_LINKS
  | AT_MULTIPLE_LOOKUP_VALUES | AT_MULTIPLE_SELECTS | AT_SINGLE_COLLABORATOR | AT_FORMULA
  | AT_ROLLUP | AT_CREATED_BY | AT_LAST_MODIFIED_BY | AT_BUTTON | AT_EXTERNAL_SYNC_SOURCE
  | AT_AI_TEXT
  | AT_SINGLE_SELECT
  | AT_OTHER string

datatype field_options = Options (linkedTableId: "string option")

record airtable_field =
  f_name :: string
  f_type :: AirtableColumnType
  f_options :: "field_options option"

record airtable_table =
  t_id :: string
  t_name :: string
  t_fields :: "airtable_field list"

datatype column_extra = Note string | Native airtable_field

record DataSourceSchemaColumn =
  col_field :: string
  col_type :: DataSourceColumnType
  col_nullable :: bool
  col_required :: bool
  col_primary_key :: bool
  col_unique_key :: bool
  col_foreign_key :: bool
  col_default :: jsval
  col_extra :: column_extra

record DataSourceSchemaRelation =
  rel_table :: string
  rel_column :: string
  org_table :: string
  org_column :: string

record DataSourceSchema =
  table :: string
  primary_key :: "string option"
  columns :: "DataSourceSchemaColumn list"
  relations :: "DataSourceSchemaRelation list"

record DataSourceWhere =
  column :: string
  operator :: WhereOperator
  wvalue :: jsval

datatype error =
  Table_not_found
  | Record_not_found
  | Linked_record_not_found
  | Record_not_created
  | Record_not_updated
  | TypeError
  | RangeError
  | Error error

section \<open>Filter translator\<close>

text \<open>
  One round of the loop of \<open>whereToFilter\<close>. The column is looked up in the schema
  (\<open>columnSchema.type\<close> on a missing column is a TypeError); a \<open>false\<close> compared with a
  BOOLEAN column is overwritten, in the predicate itself, by the empty string.
\<close>

definition rewrite_false :: "DataSourceSchema \<Rightarrow> DataSourceWhere \<Rightarrow> error + DataSourceWhere" where
  "rewrite_false schema w =
     (case find (\<lambda>c. col_field c = column w) (columns schema) of
        None \<Rightarrow> Inl TypeError
      | Some columnSchema \<Rightarrow>
          Inr (if col_type columnSchema = BOOLEAN \<and> wvalue w = VBool False
               then w\<lparr>wvalue := VStr []\<rparr> else w))"

text \<open>The text a predicate adds to the filter, without the separator; nothing when the operator is not supported.\<close>

definition render :: "DataSourceWhere \<Rightarrow> string option" where
  \<open>render w =
     (case operator w of
        equals \<Rightarrow> Some (''{'' @ column w @ ''}="'' @ js_string (wvalue w) @ ''"'')
      | not_equals \<Rightarrow> Some (''{'' @ column w @ ''}!="'' @ js_string (wvalue w) @ ''"'')
      | gt \<Rightarrow> Some (''{'' @ column w @ ''}>"'' @ js_string (wvalue w) @ ''"'')
      | gte \<Rightarrow> Some (''{'' @ column w @ ''}>="'' @ js_string (wvalue w) @ ''"'')
      | lt \<Rightarrow> Some (''{'' @ column w @ ''}<"'' @ js_string (wvalue w) @ ''"'')
      | lte \<Rightarrow> Some (''{'' @ column w @ ''}<="'' @ js_string (wvalue w) @ ''"'')
      | like \<Rightarrow> Some (''SEARCH("'' @ js_string (wvalue w) @ ''",{'' @ column w @ ''})'')
      | search \<Rightarrow> Some (''SEARCH("'' @ js_string (wvalue w) @ ''",{'' @ column w @ ''})'')
      | not_like \<Rightarrow> Some (''NOT(SEARCH("'' @ js_string (wvalue w) @ ''",{'' @ column w @ ''}))'')
      | _ \<Rightarrow> None)\<close>

definition append_term :: "string \<Rightarrow> DataSourceWhere \<Rightarrow> string" where
  "append_term flt w = (case render w of None \<Rightarrow> flt | Some e \<Rightarrow> flt @ e @ '','')"

text \<open>
  The loop \<open>for (const w of where)\<close>: it returns the predicates as the loop leaves them,
  and the accumulated filter text or the error thrown. When a column is missing the
  loop stops there: the predicates before it have been through the rewrite, that one
  and those after it are as they were.
\<close>

fun where_loop ::
  "DataSourceSchema \<Rightarrow> DataSourceWhere list \<Rightarrow> string \<Rightarrow> DataSourceWhere list \<times> (error + string)" where
  "where_loop schema [] flt = ([], Inr flt)"
| "where_loop schema (w # ws) flt =
     (case rewrite_false schema w of
        Inl e \<Rightarrow> (w # ws, Inl e)
      | Inr w' \<Rightarrow>
          (case where_loop schema ws (append_term flt w') of
             (ws', r) \<Rightarrow> (w' # ws', r)))"

text \<open>
  A call of \<open>whereToFilter\<close>: the filter expression returned or the error thrown, and
  the two arguments as the call leaves them (the predicates are written in place by the
  source; the schema is only read).
\<close>

record filter_call =
  filter_result :: "error + string"
  where_after :: "DataSourceWhere list"
  schema_after :: DataSourceSchema

definition whereToFilter :: "DataSourceWhere list \<Rightarrow> DataSourceSchema \<Rightarrow> filter_call" where
  "whereToFilter wh schema =
     (if length wh = 0
      then \<lparr>filter_result = Inr [], where_after = wh, schema_after = schema\<rparr>
      else
        (case where_loop schema wh [] of
           (wh', Inl e) \<Rightarrow> \<lparr>filter_result = Inl e, where_after = wh', schema_after = schema\<rparr>
         | (wh', Inr flt) \<Rightarrow>
             (let flt' = butlast flt in
              if length wh > 1
              then \<lparr>filter_result = Inr (if flt' \<noteq> [] then ''AND('' @ flt' @ '')'' else []),
                    where_after = wh', schema_after = schema\<rparr>
              else \<lparr>filter_result = Inr flt', where_after = wh', schema_after = schema\<rparr>)))"

section \<open>Requests, responses and the backend\<close>

datatype http_method = GET | POST | PATCH | DELETE

text \<open>
  The \<open>offset\<close> of a list request is the backend's continuation cursor, or whatever else
  the caller stores there (a number, where the source passes the logical offset).
\<close>

datatype page_offset = Cursor string | Logical nat

record list_body =
  pageSize :: "nat option"
  req_fields :: "string list"
  filterByFormula :: string
  req_sort :: "(string \<times> string) list option"
  maxRecords :: "nat option"
  req_offset :: "page_offset option"

datatype body = NoData | ListRecords list_body | CreateRecords obj | UpdateFields obj

record request =
  req_method :: http_method
  endpoint :: string
  req_data :: body

record airtable_record =
  rec_id :: jsval
  rec_fields :: obj

text \<open>
  A response body is read through the attributes the source reads; an attribute the
  body lacks is \<open>undefined\<close> (\<open>VUndefined\<close>, \<open>None\<close>, or no fields to spread).
\<close>

record response =
  r_id :: jsval
  r_fields :: obj
  r_records :: "airtable_record list option"
  r_offset :: "string option"
  r_tables :: "airtable_table list option"

text \<open>
  What a request comes to: a response body; a rejection that carries an HTTP response
  (\<open>createRequest\<close> logs it and returns \<open>undefined\<close>); or no response at all (the
  \<open>catch\<close> block of \<open>createRequest\<close> then reads \<open>e.response.data\<close> of an undefined
  response, a TypeError). The backend answers a request given the requests sent so far.
\<close>

datatype outcome = Replied response | Rejected | Unreachable

type_synonym backend = "request list \<Rightarrow> request \<Rightarrow> outcome"

text \<open>
  The pagination helper's token functions, the configured default limit and the
  conversion \<open>new Date(value).toISOString()\<close> (\<open>None\<close>: RangeError, invalid date) are
  not part of this file and are parameters.
\<close>

record Pagination =
  p_current :: "nat option \<Rightarrow> nat option \<Rightarrow> string option"
  p_previous :: "nat option \<Rightarrow> nat option \<Rightarrow> string option"
  p_next :: "nat option \<Rightarrow> nat option \<Rightarrow> nat \<Rightarrow> string option"
  p_first :: "nat option \<Rightarrow> string option"
  p_last :: "nat option \<Rightarrow> nat \<Rightarrow> string option"

record env =
  respond :: backend
  default_limit :: "nat option"
  pagination :: Pagination
  toISOString :: "jsval \<Rightarrow> string option"

subsection \<open>Asynchronous operations\<close>

text \<open>
  An operation takes the list of requests sent so far and returns its result (\<open>Inl\<close> a
  thrown error) with the extended list; \<open>None\<close> means that it did not return within
  the fuel given.
\<close>

type_synonym 'a io = "request list \<Rightarrow> ((error + 'a) \<times> request list) option"

definition ret :: "'a \<Rightarrow> 'a io" where
  "ret x = (\<lambda>log. Some (Inr x, log))"

definition throw :: "error \<Rightarrow> 'a io" where
  "throw e = (\<lambda>log. Some (Inl e, log))"

definition lift :: "error + 'a \<Rightarrow> 'a io" where
  "lift r = (\<lambda>log. Some (r, log))"

definition diverge :: "'a io" where
  "diverge = (\<lambda>log. None)"

definition bind :: "'a io \<Rightarrow> ('a \<Rightarrow> 'b io) \<Rightarrow> 'b io" where
  "bind m f =
     (\<lambda>log. case m log of
        None \<Rightarrow> None
      | Some (Inl e, log') \<Rightarrow> Some (Inl e, log')
      | Some (Inr x, log') \<Rightarrow> f x log')"

text \<open>\<open>try { ... } catch (e) { throw new Error(e) }\<close>\<close>

definition try_rethrow :: "'a io \<Rightarrow> 'a io" where
  "try_rethrow m =
     (\<lambda>log. case m log of
        None \<Rightarrow> None
      | Some (Inl e, log') \<Rightarrow> Some (Inl (Error e), log')
      | Some (Inr x, log') \<Rightarrow> Some (Inr x, log'))"

definition createRequest :: "env \<Rightarrow> request \<Rightarrow> response option io" where
  "createRequest env req =
     (\<lambda>log. case respond env log req of
        Replied r \<Rightarrow> Some (Inr (Some r), log @ [req])
      | Rejected \<Rightarrow> Some (Inr None, log @ [req])
      | Unreachable \<Rightarrow> Some (Inl TypeError, log @ [req]))"

section \<open>Schema resolver\<close>

fun fieldMapper :: "AirtableColumnType \<Rightarrow> DataSourceColumnType" where
  "fieldMapper AT_EMAIL = STRING"
| "fieldMapper AT_URL = STRING"
| "fieldMapper AT_BARCODE = STRING"
| "fieldMapper AT_MULTILINE_TEXT = STRING"
| "fieldMapper AT_RICH_TEXT = STRING"
| "fieldMapper AT_DURATION = STRING"
| "fieldMapper AT_PHONE_NUMBER = STRING"
| "fieldMapper AT_SINGLE_LINE_TEXT = STRING"
| "fieldMapper AT_AUTO_NUMBER = NUMBER"
| "fieldMapper AT_NUMBER = NUMBER"
| "fieldMapper AT_COUNT = NUMBER"
| "fieldMapper AT_PERCENT = NUMBER"
| "fieldMapper AT_CURRENCY = NUMBER"
| "fieldMapper AT_RATING = NUMBER"
| "fieldMapper AT_CHECKBOX = BOOLEAN"
| "fieldMapper AT_DATE = DATE"
| "fieldMapper AT_DATE_TIME = DATE"
| "fieldMapper AT_CREATED_TIME = DATE"
| "fieldMapper AT_LAST_MODIFIED_TIME = DATE"
| "fieldMapper AT_MULTIPLE_ATTACHMENTS = JSON"
| "fieldMapper AT_MULTIPLE_COLLABORATORS = JSON"
| "fieldMapper AT_MULTIPLE_RECORD_LINKS = JSON"
| "fieldMapper AT_MULTIPLE_LOOKUP_VALUES = JSON"
| "fieldMapper AT_MULTIPLE_SELECTS = JSON"
| "fieldMapper AT_SINGLE_COLLABORATOR = JSON"
| "fieldMapper AT_FORMULA = JSON"
| "fieldMapper AT_ROLLUP = JSON"
| "fieldMapper AT_CREATED_BY = JSON"
| "fieldMapper AT_LAST_MODIFIED_BY = JSON"
| "fieldMapper AT_BUTTON = JSON"
| "fieldMapper AT_EXTERNAL_SYNC_SOURCE = JSON"
| "fieldMapper AT_AI_TEXT = JSON"
| "fieldMapper AT_SINGLE_SELECT = ENUM"
| "fieldMapper (AT_OTHER other) = UNKNOWN"

definition id_column :: DataSourceSchemaColumn where
  "id_column =
     \<lparr>col_field = ''id'', col_type = STRING, col_nullable = False, col_required = False,
      col_primary_key = True, col_unique_key = True, col_foreign_key = False,
      col_default = VNull, col_extra = Note ''Airtable Autogenerated ID''\<rparr>"

definition field_column :: "airtable_field \<Rightarrow> DataSourceSchemaColumn" where
  "field_column fld =
     \<lparr>col_field = f_name fld, col_type = fieldMapper (f_type fld), col_nullable = True,
      col_required = False, col_primary_key = False, col_unique_key = False,
      col_foreign_key = (f_type fld = AT_MULTIPLE_RECORD_LINKS),
      col_default = VNull, col_extra = Native fld\<rparr>"

text \<open>\<open>field.options.linkedTableId\<close>: a TypeError when the field has no options.\<close>

definition linked_table_id :: "airtable_field \<Rightarrow> error + string option" where
  "linked_table_id fld =
     (case f_options fld of None \<Rightarrow> Inl TypeError | Some opts \<Rightarrow> Inr (linkedTableId opts))"

text \<open>
  The first loop of \<open>getSchema\<close>, over the fields of the target table: a column for each
  field and a forward relation for each link field.
\<close>

fun forward_fields ::
  "airtable_table list \<Rightarrow> string \<Rightarrow> airtable_field list \<Rightarrow>
   DataSourceSchemaColumn list \<Rightarrow> DataSourceSchemaRelation list \<Rightarrow>
   error + (DataSourceSchemaColumn list \<times> DataSourceSchemaRelation list)" where
  "forward_fields tables target [] cols rels = Inr (cols, rels)"
| "forward_fields tables target (fld # flds) cols rels =
     (if f_type fld = AT_MULTIPLE_RECORD_LINKS then
        (case linked_table_id fld of
           Inl e \<Rightarrow> Inl e
         | Inr lid \<Rightarrow>
             (case find (\<lambda>t. Some (t_id t) = lid) tables of
                None \<Rightarrow> Inl TypeError
              | Some linkedTable \<Rightarrow>
                  forward_fields tables target flds (cols @ [field_column fld])
                    (rels @ [\<lparr>rel_table = t_name linkedTable, rel_column = ''id'',
                              org_table = target, org_column = f_name fld\<rparr>])))
      else forward_fields tables target flds (cols @ [field_column fld]) rels)"

text \<open>
  The second pass, \<open>for (const table of response.tables) for (const field of table.fields)\<close>.
  Inside it \<open>table\<close> is the table of the loop: the test compares the field's linked
  table with the table that owns the field.
\<close>

fun reverse_fields ::
  "string \<Rightarrow> airtable_table \<Rightarrow> airtable_field list \<Rightarrow> DataSourceSchemaRelation list \<Rightarrow>
   error + DataSourceSchemaRelation list" where
  "reverse_fields target tbl [] rels = Inr rels"
| "reverse_fields target tbl (fld # flds) rels =
     (if f_type fld = AT_MULTIPLE_RECORD_LINKS then
        (case linked_table_id fld of
           Inl e \<Rightarrow> Inl e
         | Inr lid \<Rightarrow>
             (if lid = Some (t_id tbl)
              then reverse_fields target tbl flds
                     (rels @ [\<lparr>rel_table = target, rel_column = f_name fld,
                               org_table = t_name tbl, org_column = ''id''\<rparr>])
              else reverse_fields target tbl flds rels))
      else reverse_fields target tbl flds rels)"

fun reverse_tables ::
  "string \<Rightarrow> airtable_table list \<Rightarrow> DataSourceSchemaRelation list \<Rightarrow>
   error + DataSourceSchemaRelation list" where
  "reverse_tables target [] rels = Inr rels"
| "reverse_tables target (tbl # tbls) rels =
     (case reverse_fields target tbl (t_fields tbl) rels of
        Inl e \<Rightarrow> Inl e
      | Inr rels' \<Rightarrow> reverse_tables target tbls rels')"

text \<open>The body of \<open>getSchema\<close> once the catalogue of tables has been fetched.\<close>

definition build_schema :: "airtable_table list \<Rightarrow> string \<Rightarrow> error + DataSourceSchema" where
  "build_schema tables target =
     (case find (\<lambda>t. t_name t = target) tables of
        None \<Rightarrow> Inl Table_not_found
      | Some tbl \<Rightarrow>
          (case forward_fields tables target (t_fields tbl) [id_column] [] of
             Inl e \<Rightarrow> Inl e
           | Inr (cols, rels) \<Rightarrow>
               (case reverse_tables target tables rels of
                  Inl e \<Rightarrow> Inl e
                | Inr rels' \<Rightarrow>
                    Inr \<lparr>table = target,
                         primary_key = map_option col_field (find col_primary_key cols),
                         columns = cols, relations = rels'\<rparr>)))"

definition getSchema :: "env \<Rightarrow> string \<Rightarrow> DataSourceSchema io" where
  "getSchema env target =
     try_rethrow
       (bind (createRequest env
                \<lparr>req_method = GET, endpoint = ''/meta/bases/BaseId/tables'', req_data = NoData\<rparr>)
          (\<lambda>res. case res of
                    None \<Rightarrow> throw TypeError
                  | Some r \<Rightarrow>
                      (case r_tables r of
                         None \<Rightarrow> throw TypeError
                       | Some tables \<Rightarrow> lift (build_schema tables target))))"

section \<open>Record mapper\<close>

definition formatField :: "env \<Rightarrow> DataSourceColumnType \<Rightarrow> jsval \<Rightarrow> error + jsval" where
  "formatField env ty v =
     (if v = VNull then Inr VNull
      else
        (case ty of
           DATE \<Rightarrow> (case toISOString env v of None \<Rightarrow> Inl RangeError | Some s \<Rightarrow> Inr (VStr s))
         | _ \<Rightarrow> Inr v))"

text \<open>The second loop of \<open>formatOutput\<close>: each key with a column of that name is formatted.\<close>

fun format_keys :: "env \<Rightarrow> DataSourceSchema \<Rightarrow> obj \<Rightarrow> error + obj" where
  "format_keys env schema [] = Inr []"
| "format_keys env schema ((k, v) # rest) =
     (case find (\<lambda>c. col_field c = k) (columns schema) of
        None \<Rightarrow> map_sum id (\<lambda>rest'. (k, v) # rest') (format_keys env schema rest)
      | Some col \<Rightarrow>
          (case formatField env (col_type col) v of
             Inl e \<Rightarrow> Inl e
           | Inr v' \<Rightarrow> map_sum id (\<lambda>rest'. (k, v') # rest') (format_keys env schema rest)))"

definition formatOutput :: "env \<Rightarrow> DataSourceSchema \<Rightarrow> string list \<Rightarrow> obj \<Rightarrow> error + obj" where
  "formatOutput env schema flds d =
     format_keys env schema
       (if length flds > 0 then filter (\<lambda>(k, v). \<not> (k \<noteq> ''id'' \<and> k \<notin> set flds)) d else d)"

section \<open>Pagination adapter\<close>

record page_tokens =
  pg_current :: "string option"
  pg_prev :: "string option"
  pg_next :: "string option"
  pg_first :: "string option"
  pg_last :: "string option"

record FindManyResponseObject =
  res_limit :: "nat option"
  res_offset :: "nat option"
  res_total :: nat
  res_pagination_total :: nat
  res_page :: page_tokens
  res_data :: "obj option list"

definition pages :: "env \<Rightarrow> nat option \<Rightarrow> nat option \<Rightarrow> nat \<Rightarrow> page_tokens" where
  "pages env lim off tot =
     \<lparr>pg_current = p_current (pagination env) lim off,
      pg_prev = p_previous (pagination env) lim off,
      pg_next = p_next (pagination env) lim off tot,
      pg_first = p_first (pagination env) lim,
      pg_last = p_last (pagination env) lim tot\<rparr>"

definition listRecords :: "string \<Rightarrow> list_body \<Rightarrow> request" where
  "listRecords tbl b =
     \<lparr>req_method = POST, endpoint = ''/BaseId/'' @ tbl @ ''/listRecords'', req_data = ListRecords b\<rparr>"

text \<open>
  The loop of \<open>findTotalRecords\<close>, one request a round. A full page (100 records or
  more) assigns its length to \<open>total\<close> (\<open>total = +result.records.length\<close>) and goes on
  from the cursor of the response; a shorter page adds its length and ends the loop.
\<close>

fun total_loop :: "nat \<Rightarrow> env \<Rightarrow> string \<Rightarrow> string \<Rightarrow> string option \<Rightarrow> nat \<Rightarrow> nat io" where
  "total_loop 0 env tbl flt off tot = diverge"
| "total_loop (Suc n) env tbl flt off tot =
     bind (createRequest env
             (listRecords tbl
                \<lparr>pageSize = Some 100, req_fields = [], filterByFormula = flt, req_sort = None,
                 maxRecords = None, req_offset = map_option Cursor off\<rparr>))
       (\<lambda>res. case res of
                 None \<Rightarrow> throw TypeError
               | Some r \<Rightarrow>
                   (case r_records r of
                      None \<Rightarrow> ret tot
                    | Some recs \<Rightarrow>
                        if length recs = 0 then ret tot
                        else if length recs < 100 then ret (tot + length recs)
                        else total_loop n env tbl flt (r_offset r) (length recs)))"

text \<open>
  \<open>findTotalRecords\<close> returns the total and the predicate list as \<open>whereToFilter\<close>
  leaves it.
\<close>

definition findTotalRecords ::
  "nat \<Rightarrow> env \<Rightarrow> DataSourceSchema \<Rightarrow> DataSourceWhere list \<Rightarrow> (nat \<times> DataSourceWhere list) io" where
  "findTotalRecords n env schema wh =
     try_rethrow
       (let call = whereToFilter wh schema
        in bind (lift (filter_result call))
             (\<lambda>filterByFormula.
                bind (total_loop n env (table schema) filterByFormula None 0)
                  (\<lambda>tot. ret (tot, where_after call))))"

datatype SortOperator = ASC | DESC

definition direction :: "SortOperator \<Rightarrow> string" where
  "direction s = (case s of ASC \<Rightarrow> ''asc'' | DESC \<Rightarrow> ''desc'')"

text \<open>
  The loop \<open>while (tempOffet < offset)\<close> of \<open>findMany\<close>: each round requests a page of
  100 with the fields, filter and sort of the call, from the cursor of the round before.
\<close>

function skip_pages ::
  "env \<Rightarrow> string \<Rightarrow> string list \<Rightarrow> string \<Rightarrow> (string \<times> string) list \<Rightarrow> nat \<Rightarrow> nat \<Rightarrow>
   string option \<Rightarrow> string option io" where
  "skip_pages env tbl flds flt srt off tempOffet airtableoffset =
     (if tempOffet < off then
        bind (createRequest env
                (listRecords tbl
                   \<lparr>pageSize = Some 100, req_fields = flds, filterByFormula = flt,
                    req_sort = Some srt, maxRecords = None,
                    req_offset = map_option Cursor airtableoffset\<rparr>))
          (\<lambda>res. case res of
                    None \<Rightarrow> throw TypeError
                  | Some r \<Rightarrow> skip_pages env tbl flds flt srt off (tempOffet + 100) (r_offset r))
      else ret airtableoffset)"
  by pat_completeness auto
termination
  by (relation "measure (\<lambda>(env, tbl, flds, flt, srt, off, tempOffet, airtableoffset). off - tempOffet)")
    auto

declare skip_pages.simps [simp del]

text \<open>
  The offset of the data request of \<open>findMany\<close>. Above 100 the pages are skipped and
  the variable \<open>offset\<close> keeps the number it was given; up to 100 one request of
  \<open>pageSize = offset\<close> is sent and \<open>offset\<close> becomes the cursor of its response.
\<close>

definition position ::
  "env \<Rightarrow> string \<Rightarrow> string list \<Rightarrow> string \<Rightarrow> (string \<times> string) list \<Rightarrow> nat option \<Rightarrow>
   page_offset option io" where
  "position env tbl flds flt srt off =
     (case off of
        None \<Rightarrow> ret None
      | Some offs \<Rightarrow>
          if offs = 0 then ret None
          else if offs > 100 then
            bind (skip_pages env tbl flds flt srt offs 0 None) (\<lambda>airtableoffset. ret (Some (Logical offs)))
          else
            bind (createRequest env
                    (listRecords tbl
                       \<lparr>pageSize = Some offs, req_fields = flds, filterByFormula = flt,
                        req_sort = Some srt, maxRecords = None, req_offset = None\<rparr>))
              (\<lambda>res. case res of
                        None \<Rightarrow> throw TypeError
                      | Some r \<Rightarrow> ret (map_option Cursor (r_offset r))))"

definition default_fields :: "DataSourceSchema \<Rightarrow> string list \<Rightarrow> string list" where
  "default_fields schema flds =
     (if length flds > 0 then flds
      else filter (\<lambda>f. f \<noteq> ''id'') (map col_field (columns schema)))"

text \<open>
  The path of \<open>findMany\<close> below the short-circuit: the total, then (inside \<open>try\<close>) the
  sort, the limit, the filter, the positioning requests and the data request.
\<close>

definition findMany_list ::
  "nat \<Rightarrow> env \<Rightarrow> DataSourceSchema \<Rightarrow> DataSourceWhere list \<Rightarrow> string list \<Rightarrow> nat option \<Rightarrow>
   nat option \<Rightarrow> (string \<times> SortOperator) list option \<Rightarrow> FindManyResponseObject io" where
  "findMany_list n env schema wh flds lim off srt =
     bind (findTotalRecords n env schema wh)
       (\<lambda>(tot, wh1).
          try_rethrow
            (let sort' = (case srt of None \<Rightarrow> [] | Some ss \<Rightarrow> map (\<lambda>(c, ord). (c, direction ord)) ss);
                 limit' = (case lim of
                             None \<Rightarrow> (case default_limit env of None \<Rightarrow> 20 | Some d \<Rightarrow> d)
                           | Some l \<Rightarrow> if l = 0 then (case default_limit env of None \<Rightarrow> 20 | Some d \<Rightarrow> d) else l)
             in bind (lift (filter_result (whereToFilter wh1 schema)))
                  (\<lambda>filterByFormula.
                     let fields' = default_fields schema flds in
                     bind (position env (table schema) fields' filterByFormula sort' off)
                       (\<lambda>offset'.
                          bind (createRequest env
                                  (listRecords (table schema)
                                     \<lparr>pageSize = Some (if limit' > 100 then 100 else limit'),
                                      req_fields = fields', filterByFormula = filterByFormula,
                                      req_sort = Some sort',
                                      maxRecords = Some (if limit' > 100 then 100 else limit'),
                                      req_offset = offset'\<rparr>))
                            (\<lambda>res. case res of
                                      None \<Rightarrow> throw TypeError
                                    | Some r \<Rightarrow>
                                        (case r_records r of
                                           None \<Rightarrow> throw TypeError
                                         | Some recs \<Rightarrow>
                                             (let results = map (\<lambda>rcd. Some (spread_id (rec_id rcd) (rec_fields rcd))) recs
                                              in ret \<lparr>res_limit = Some limit', res_offset = off,
                                                      res_total = tot,
                                                      res_pagination_total = length results,
                                                      res_page = pages env (Some limit') off tot,
                                                      res_data = results\<rparr>)))))))"

section \<open>Find one, find many\<close>

text \<open>
  \<open>findOne\<close> and \<open>findMany\<close> call each other; the fuel bounds the depth of the calls and
  the rounds of the counting loop. \<open>findOne\<close> returns a record or \<open>undefined\<close> (\<open>None\<close>).
\<close>

fun findOne ::
    "nat \<Rightarrow> env \<Rightarrow> DataSourceSchema \<Rightarrow> DataSourceWhere list \<Rightarrow> string list \<Rightarrow> obj option io"
  and findMany ::
    "nat \<Rightarrow> env \<Rightarrow> DataSourceSchema \<Rightarrow> DataSourceWhere list \<Rightarrow> string list \<Rightarrow> nat option \<Rightarrow>
     nat option \<Rightarrow> (string \<times> SortOperator) list option \<Rightarrow> FindManyResponseObject io" where
  "findOne 0 env schema wh flds = diverge"
| "findOne (Suc n) env schema wh flds =
     try_rethrow
       (let fields' = default_fields schema flds;
            ident = (case find (\<lambda>w. Some (column w) = primary_key schema) wh of
                       None \<Rightarrow> VUndefined
                     | Some w \<Rightarrow> wvalue w)
        in if \<not> truthy ident then
             bind (findMany n env schema wh fields' (Some 1) (Some 0) None)
               (\<lambda>results. ret (case res_data results of [] \<Rightarrow> None | x # xs \<Rightarrow> x))
           else
             bind (createRequest env
                     \<lparr>req_method = GET,
                      endpoint = ''/BaseId/'' @ table schema @ ''/'' @ js_string ident,
                      req_data = NoData\<rparr>)
               (\<lambda>res. case res of
                         None \<Rightarrow> throw TypeError
                       | Some r \<Rightarrow>
                           if \<not> truthy (r_id r) then throw Record_not_found
                           else bind (lift (formatOutput env schema flds (spread_id (r_id r) (r_fields r))))
                                  (\<lambda>out. ret (Some out))))"
| "findMany 0 env schema wh flds lim off srt = diverge"
| "findMany (Suc n) env schema wh flds lim off srt =
     (if length wh = 1 \<and> Some (column (hd wh)) = primary_key schema then
        bind (findOne n env schema wh flds)
          (\<lambda>one. ret \<lparr>res_limit = lim, res_offset = off, res_total = 1,
                       res_pagination_total = 1, res_page = pages env lim off 1,
                       res_data = [one]\<rparr>)
      else findMany_list n env schema wh flds lim off srt)"

section \<open>Relation resolver\<close>

text \<open>
  The loop \<open>for (const id of options.data[col.field])\<close> of \<open>createOne\<close> and
  \<open>updateOne\<close>: for each linked id the schema of the linked table is fetched and the
  record is looked up by \<open>id\<close>. \<open>linkedTable.table\<close> of a relation that was not found
  is a TypeError.
\<close>

fun check_links :: "nat \<Rightarrow> env \<Rightarrow> DataSourceSchemaRelation option \<Rightarrow> jsval list \<Rightarrow> unit io" where
  "check_links n env linkedTable [] = ret ()"
| "check_links n env linkedTable (ident # idents) =
     (case linkedTable of
        None \<Rightarrow> throw TypeError
      | Some rel \<Rightarrow>
          bind (getSchema env (rel_table rel))
            (\<lambda>linkedSchema.
               bind (findOne n env linkedSchema
                       [\<lparr>column = ''id'', operator = equals, wvalue = ident\<rparr>] [])
                 (\<lambda>linkedRecord.
                    case linkedRecord of
                      None \<Rightarrow> throw Linked_record_not_found
                    | Some found \<Rightarrow> check_links n env linkedTable idents)))"

text \<open>
  The loop over the columns of the schema; the data is returned as the loop leaves it
  (a scalar in a foreign-key column is replaced by a one-element array).
\<close>

fun check_relations ::
  "nat \<Rightarrow> env \<Rightarrow> DataSourceSchema \<Rightarrow> DataSourceSchemaColumn list \<Rightarrow> obj \<Rightarrow> obj io" where
  "check_relations n env schema [] d = ret d"
| "check_relations n env schema (col # cols) d =
     (if col_foreign_key col \<and> truthy (get_prop d (col_field col)) then
        (let v = get_prop d (col_field col);
             d' = (case v of VArr xs \<Rightarrow> d | other \<Rightarrow> AList.update (col_field col) (VArr [v]) d);
             idents = (case v of VArr xs \<Rightarrow> xs | other \<Rightarrow> [v]);
             linkedTable = find (\<lambda>r. org_column r = col_field col) (relations schema)
         in bind (check_links n env linkedTable idents)
              (\<lambda>u. check_relations n env schema cols d'))
      else check_relations n env schema cols d)"

section \<open>Create, update, delete\<close>

definition createOne :: "nat \<Rightarrow> env \<Rightarrow> DataSourceSchema \<Rightarrow> obj \<Rightarrow> obj io" where
  "createOne n env schema d =
     try_rethrow
       (bind (check_relations n env schema (columns schema) d)
          (\<lambda>d'. bind (createRequest env
                        \<lparr>req_method = POST, endpoint = ''/BaseId/'' @ table schema,
                         req_data = CreateRecords d'\<rparr>)
                   (\<lambda>res. case res of
                             None \<Rightarrow> throw TypeError
                           | Some r \<Rightarrow>
                               (case r_records r of
                                  None \<Rightarrow> throw Record_not_created
                                | Some [] \<Rightarrow> throw Record_not_created
                                | Some (rcd # rcds) \<Rightarrow> ret (spread_id (rec_id rcd) (rec_fields rcd))))))"








section \<open>Notions used in the statements\<close>

text \<open>The predicate as \<open>whereToFilter\<close> leaves it: \<open>false\<close> on a BOOLEAN column has become the empty string.\<close>

definition checkbox_value :: "DataSourceSchema \<Rightarrow> DataSourceWhere \<Rightarrow> DataSourceWhere" where
  "checkbox_value schema w =
     (case find (\<lambda>c. col_field c = column w) (columns schema) of
        None \<Rightarrow> w
      | Some c \<Rightarrow> if col_type c = BOOLEAN \<and> wvalue w = VBool False then w\<lparr>wvalue := VStr []\<rparr> else w)"

definition known_column :: "DataSourceSchema \<Rightarrow> DataSourceWhere \<Rightarrow> bool" where
  "known_column schema w = (column w \<in> set (map col_field (columns schema)))"

text \<open>The rendered predicates of a list, in order, those with an unsupported operator left out.\<close>

definition terms :: "DataSourceSchema \<Rightarrow> DataSourceWhere list \<Rightarrow> string list" where
  "terms schema wh = List.map_filter render (map (checkbox_value schema) wh)"







definition returns_only :: "'a io \<Rightarrow> (error + 'a \<Rightarrow> bool) \<Rightarrow> bool" where
  "returns_only m Q = (\<forall>log r log'. m log = Some (r, log') \<longrightarrow> Q r)"

definition wrapped :: "error \<Rightarrow> bool" where
  "wrapped e = (case e of Error inner \<Rightarrow> True | other \<Rightarrow> False)"

section \<open>Example inputs\<close>

definition no_pagination :: Pagination where
  "no_pagination =
     \<lparr>p_current = (\<lambda>l off. None), p_previous = (\<lambda>l off. None), p_next = (\<lambda>l off t. None),
      p_first = (\<lambda>l. None), p_last = (\<lambda>l t. None)\<rparr>"

definition plain_column :: "string \<Rightarrow> DataSourceColumnType \<Rightarrow> bool \<Rightarrow> DataSourceSchemaColumn" where
  "plain_column name ty fk =
     \<lparr>col_field = name, col_type = ty, col_nullable = True, col_required = False,
      col_primary_key = False, col_unique_key = False, col_foreign_key = fk,
      col_default = VNull, col_extra = Note []\<rparr>"

definition orders_schema :: DataSourceSchema where
  "orders_schema =
     \<lparr>table = ''Orders'', primary_key = Some ''id'',
      columns = [id_column, plain_column ''CustomerId'' JSON True,
                 plain_column ''created'' DATE False, plain_column ''active'' BOOLEAN False],
      relations = [\<lparr>rel_table = ''Customers'', rel_column = ''id'', org_table = ''Orders'',
                    org_column = ''CustomerId''\<rparr>]\<rparr>"

definition blank_page :: "nat \<Rightarrow> string option \<Rightarrow> response" where
  "blank_page k cursor =
     \<lparr>r_id = VUndefined, r_fields = [],
      r_records = Some (replicate k \<lparr>rec_id = VStr ''rec'', rec_fields = []\<rparr>),
      r_offset = cursor, r_tables = None\<rparr>"

text \<open>
  A backend with 250 matching records: pages of 100, 100 and 50, the cursors \<open>c1\<close> and
  \<open>c2\<close> leading from one to the next. It rejects an offset that is not one of its cursors.
\<close>

definition backend_250 :: backend where
  "backend_250 log req =
     (case req_data req of
        ListRecords b \<Rightarrow>
          (case req_offset b of
             None \<Rightarrow> Replied (blank_page 100 (Some ''c1''))
           | Some (Cursor c) \<Rightarrow>
               if c = ''c1'' then Replied (blank_page 100 (Some ''c2''))
               else if c = ''c2'' then Replied (blank_page 50 None)
               else Rejected
           | Some (Logical k) \<Rightarrow> Rejected)
      | other \<Rightarrow> Rejected)"

definition env_250 :: env where
  "env_250 =
     \<lparr>respond = backend_250, default_limit = None, pagination = no_pagination,
      toISOString = (\<lambda>v. None)\<rparr>"

text \<open>
  A base of two tables: \<open>Orders\<close> links to \<open>Customers\<close> through the field
  \<open>CustomerId\<close>. It holds the customer \<open>rec1\<close> and the order \<open>rec123\<close>; any
  other record is answered by a rejection (404).
\<close>

definition shop_tables :: "airtable_table list" where
  "shop_tables =
     [\<lparr>t_id = ''tblCustomers'', t_name = ''Customers'',
       t_fields = [\<lparr>f_name = ''Name'', f_type = AT_SINGLE_LINE_TEXT, f_options = None\<rparr>]\<rparr>,
      \<lparr>t_id = ''tblOrders'', t_name = ''Orders'',
       t_fields = [\<lparr>f_name = ''CustomerId'', f_type = AT_MULTIPLE_RECORD_LINKS,
                     f_options = Some (Options (Some ''tblCustomers''))\<rparr>,
                   \<lparr>f_name = ''created'', f_type = AT_DATE, f_options = None\<rparr>]\<rparr>]"

definition body_only :: response where
  "body_only = \<lparr>r_id = VUndefined, r_fields = [], r_records = None, r_offset = None, r_tables = None\<rparr>"

definition order_fields :: obj where
  "order_fields = [(''CustomerId'', VArr [VStr ''rec1'']), (''created'', VStr ''2024-01-01'')]"

definition shop_backend :: backend where
  "shop_backend log req =
     (if req_method req = GET \<and> endpoint req = ''/meta/bases/BaseId/tables''
      then Replied (body_only\<lparr>r_tables := Some shop_tables\<rparr>)
      else if req_method req = GET \<and> endpoint req = ''/BaseId/Customers/rec1''
      then Replied (body_only\<lparr>r_id := VStr ''rec1'', r_fields := [(''Name'', VStr ''Ann'')]\<rparr>)
      else if req_method req = GET \<and> endpoint req = ''/BaseId/Orders/rec123''
      then Replied (body_only\<lparr>r_id := VStr ''rec123'', r_fields := order_fields\<rparr>)
      else if req_method req = POST \<and> endpoint req = ''/BaseId/Orders/listRecords''
      then Replied (body_only\<lparr>r_records := Some [\<lparr>rec_id = VStr ''rec123'', rec_fields = order_fields\<rparr>]\<rparr>)
      else if req_method req = PATCH \<and> endpoint req = ''/BaseId/Orders/rec123''
      then (case req_data req of
              UpdateFields d \<Rightarrow> Replied (body_only\<lparr>r_id := VStr ''rec123'', r_fields := order_fields @ d\<rparr>)
            | other \<Rightarrow> Rejected)
      else if req_method req = POST \<and> endpoint req = ''/BaseId/Orders''
      then (case req_data req of
              CreateRecords d \<Rightarrow> Replied (body_only\<lparr>r_records := Some [\<lparr>rec_id = VStr ''rec124'', rec_fields = d\<rparr>]\<rparr>)
            | other \<Rightarrow> Rejected)
      else Rejected)"

definition shop_env :: env where
  "shop_env =
     \<lparr>respond = shop_backend, default_limit = None, pagination = no_pagination,
      toISOString = (\<lambda>v. if v = VStr ''2024-01-01'' then Some ''2024-01-01T00:00:00.000Z'' else None)\<rparr>"

text \<open>
  Three predicates on \<open>Orders\<close>; the second names a column the schema does not have.
\<close>

definition mixed_where :: "DataSourceWhere list" where
  "mixed_where =
     [\<lparr>column = ''active'', operator = equals, wvalue = VBool False\<rparr>,
      \<lparr>column = ''nope'', operator = equals, wvalue = VStr ''a''\<rparr>,
      \<lparr>column = ''active'', operator = not_equals, wvalue = VBool False\<rparr>]"

section \<open>The filter translator: properties\<close>

lemma find_field_None: "find (\<lambda>c. col_field c = k) cs = None \<longleftrightarrow> k \<notin> set (map col_field cs)"
  by (induction cs) auto

lemma rewrite_false_known:
  "known_column schema w \<Longrightarrow> rewrite_false schema w = Inr (checkbox_value schema w)"
  by (auto simp: known_column_def rewrite_false_def checkbox_value_def find_field_None
      split: option.splits)

lemma rewrite_false_unknown:
  "\<not> known_column schema w \<Longrightarrow> rewrite_false schema w = Inl TypeError"
  using find_field_None[of "column w" "columns schema"]
  by (auto simp: known_column_def rewrite_false_def split: option.splits)

text \<open>What the loop returns, in every case.\<close>

lemma where_loop_eq:
  "where_loop schema wh flt =
     (map (checkbox_value schema) (takeWhile (known_column schema) wh)
        @ dropWhile (known_column schema) wh,
      if list_all (known_column schema) wh
      then Inr (flt @ concat (map (\<lambda>e. e @ '','') (terms schema wh)))
      else Inl TypeError)"
proof (induction wh arbitrary: flt)
  case Nil
  then show ?case by (simp add: terms_def)
next
  case (Cons w ws)
  show ?case
  proof (cases "known_column schema w")
    case True
    then show ?thesis
      by (simp add: Cons rewrite_false_known terms_def append_term_def split: option.splits)
  next
    case False
    then show ?thesis by (simp add: rewrite_false_unknown)
  qed
qed

lemma butlast_separated: "butlast (concat (map (\<lambda>e. e @ '','') es)) = join_with '','' es"
proof (induction es)
  case Nil
  then show ?case by simp
next
  case (Cons x xs)
  then show ?case by (cases xs) (simp_all add: butlast_append)
qed

lemma render_nonempty: "render w = Some e \<Longrightarrow> e \<noteq> []"
  by (auto simp: render_def split: WhereOperator.splits)

lemma terms_nonempty: "e \<in> set (terms schema wh) \<Longrightarrow> e \<noteq> []"
  by (auto simp: terms_def List.map_filter_def dest: render_nonempty)

lemma join_with_nonempty: "es \<noteq> [] \<Longrightarrow> hd es \<noteq> [] \<Longrightarrow> join_with sep es \<noteq> []"
  by (induction sep es rule: join_with.induct) auto

lemma join_terms_empty: "join_with '','' (terms schema wh) = [] \<longleftrightarrow> terms schema wh = []"
proof
  assume j: "join_with '','' (terms schema wh) = []"
  show "terms schema wh = []"
  proof (rule ccontr)
    assume ne: "terms schema wh \<noteq> []"
    then have "hd (terms schema wh) \<in> set (terms schema wh)" by simp
    then have "hd (terms schema wh) \<noteq> []" by (rule terms_nonempty)
    with ne j show False using join_with_nonempty by blast
  qed
qed simp

text \<open>What \<open>whereToFilter\<close> returns and leaves, in every case.\<close>

lemma whereToFilter_eq:
  "whereToFilter wh schema =
     \<lparr>filter_result =
        (if wh = [] then Inr []
         else if list_all (known_column schema) wh
         then Inr (if length wh \<ge> 2 \<and> terms schema wh \<noteq> []
                   then ''AND('' @ join_with '','' (terms schema wh) @ '')''
                   else join_with '','' (terms schema wh))
         else Inl TypeError),
      where_after = map (checkbox_value schema) (takeWhile (known_column schema) wh)
                      @ dropWhile (known_column schema) wh,
      schema_after = schema\<rparr>"
  by (auto simp: whereToFilter_def where_loop_eq butlast_separated Let_def join_terms_empty)

lemma checkbox_value_idem:
  "checkbox_value schema (checkbox_value schema w) = checkbox_value schema w"
  by (simp add: checkbox_value_def split: option.splits)

lemma known_checkbox_value:
  "known_column schema (checkbox_value schema w) = known_column schema w"
  by (simp add: checkbox_value_def known_column_def split: option.splits)

lemma terms_idem: "terms schema (map (checkbox_value schema) wh) = terms schema wh"
  by (simp add: terms_def checkbox_value_idem o_def)

text \<open>The list a call leaves is left as it is by a second call, which throws if the first did.\<close>

lemma left_takeWhile:
  "takeWhile (known_column schema)
     (map (checkbox_value schema) (takeWhile (known_column schema) wh)
        @ dropWhile (known_column schema) wh) =
   map (checkbox_value schema) (takeWhile (known_column schema) wh)"
  by (induction wh) (simp_all add: known_checkbox_value)

lemma left_dropWhile:
  "dropWhile (known_column schema)
     (map (checkbox_value schema) (takeWhile (known_column schema) wh)
        @ dropWhile (known_column schema) wh) =
   dropWhile (known_column schema) wh"
  by (induction wh) (simp_all add: known_checkbox_value)

lemma left_all_known:
  "list_all (known_column schema)
     (map (checkbox_value schema) (takeWhile (known_column schema) wh)
        @ dropWhile (known_column schema) wh) =
   list_all (known_column schema) wh"
  by (induction wh) (simp_all add: known_checkbox_value)

lemma all_known_takeWhile:
  "list_all P wh \<Longrightarrow> takeWhile P wh = wh \<and> dropWhile P wh = []"
  by (induction wh) simp_all

lemma left_empty:
  "(map (checkbox_value schema) (takeWhile (known_column schema) wh)
      @ dropWhile (known_column schema) wh = []) = (wh = [])"
  by (cases wh) simp_all

lemma left_length:
  "length (map (checkbox_value schema) (takeWhile (known_column schema) wh)
      @ dropWhile (known_column schema) wh) = length wh"
  using takeWhile_dropWhile_id[of "known_column schema" wh]
  by (metis length_append length_map)

lemma whereToFilter_again:
  "whereToFilter
     (map (checkbox_value schema) (takeWhile (known_column schema) wh)
        @ dropWhile (known_column schema) wh) schema =
   whereToFilter wh schema"
proof (cases "list_all (known_column schema) wh")
  case True
  then show ?thesis
    by (simp add: whereToFilter_eq all_known_takeWhile checkbox_value_idem terms_idem
        list_all_iff known_checkbox_value o_def)
next
  case False
  then have ne: "(wh = []) = False" by auto
  have all: "list_all (known_column schema) wh = False" using False by simp
  have "whereToFilter
     (map (checkbox_value schema) (takeWhile (known_column schema) wh)
        @ dropWhile (known_column schema) wh) schema =
     \<lparr>filter_result = Inl TypeError,
      where_after = map (checkbox_value schema) (takeWhile (known_column schema) wh)
                      @ dropWhile (known_column schema) wh,
      schema_after = schema\<rparr>"
    by (subst whereToFilter_eq)
      (simp add: left_takeWhile left_dropWhile left_all_known left_empty ne all
        checkbox_value_idem o_def del: list_all_append append_is_Nil_conv)
  moreover have "whereToFilter wh schema =
     \<lparr>filter_result = Inl TypeError,
      where_after = map (checkbox_value schema) (takeWhile (known_column schema) wh)
                      @ dropWhile (known_column schema) wh,
      schema_after = schema\<rparr>"
    by (subst whereToFilter_eq) (simp only: ne all if_False)
  ultimately show ?thesis by simp
qed

text \<open>
  C4, as amended. When every predicate names a column of the schema, the filter
  expression is: for two or more predicates of which at least one has a supported
  operator, \<open>AND(e1,e2,...)\<close> where the \<open>e\<close> are the rendered predicates with a supported
  operator, in order, one comma between consecutive terms and none after the last; in
  every other case those terms joined likewise without a wrapper, which is the raw rendered
  expression for a single supported predicate and the empty expression when the list is
  empty or no operator is supported.
\<close>

theorem whereToFilter_expression:
  assumes "list_all (known_column schema) wh"
  shows "filter_result (whereToFilter wh schema) =
           Inr (if length wh \<ge> 2 \<and> terms schema wh \<noteq> []
                then ''AND('' @ join_with '','' (terms schema wh) @ '')''
                else join_with '','' (terms schema wh))"
  using assms by (simp add: whereToFilter_eq terms_def)

theorem whereToFilter_expression_witness:
  \<open>list_all (known_column orders_schema)
     [\<lparr>column = ''active'', operator = equals, wvalue = VBool False\<rparr>,
      \<lparr>column = ''id'', operator = op_in, wvalue = VStr ''a''\<rparr>,
      \<lparr>column = ''created'', operator = gte, wvalue = VStr ''2024''\<rparr>]
   \<and> filter_result (whereToFilter
        [\<lparr>column = ''active'', operator = equals, wvalue = VBool False\<rparr>,
         \<lparr>column = ''id'', operator = op_in, wvalue = VStr ''a''\<rparr>,
         \<lparr>column = ''created'', operator = gte, wvalue = VStr ''2024''\<rparr>] orders_schema) =
       Inr ''AND({active}="",{created}>="2024")''\<close>
proof -
  have known: "list_all (known_column orders_schema)
     [\<lparr>column = ''active'', operator = equals, wvalue = VBool False\<rparr>,
      \<lparr>column = ''id'', operator = op_in, wvalue = VStr ''a''\<rparr>,
      \<lparr>column = ''created'', operator = gte, wvalue = VStr ''2024''\<rparr>]"
    by (simp add: known_column_def orders_schema_def id_column_def plain_column_def)
  show ?thesis
    using known whereToFilter_expression [OF known]
    by (simp add: terms_def checkbox_value_def render_def orders_schema_def id_column_def
        plain_column_def)
qed

text \<open>
  C4 as stated fails: two predicates, neither with a supported operator, give the empty
  expression and no \<open>AND(...)\<close>.
\<close>

theorem whereToFilter_unsupported_counterexample:
  "length [\<lparr>column = ''id'', operator = op_in, wvalue = VStr ''a''\<rparr>,
           \<lparr>column = ''active'', operator = not_null, wvalue = VNull\<rparr>] = 2
   \<and> filter_result (whereToFilter
        [\<lparr>column = ''id'', operator = op_in, wvalue = VStr ''a''\<rparr>,
         \<lparr>column = ''active'', operator = not_null, wvalue = VNull\<rparr>] orders_schema) = Inr []"
  by (simp add: whereToFilter_def rewrite_false_def append_term_def render_def
      orders_schema_def id_column_def plain_column_def)

text \<open>
  C7, as amended. A call of \<open>whereToFilter\<close> is determined by the predicate list and the
  schema it is given, and leaves the schema as it was. It leaves the predicate list as
  it was except that, up to the first predicate whose column is not in the schema (where
  the call throws), every predicate of value \<open>false\<close> on a BOOLEAN column has the empty
  string for its value. A second call on the list so left returns or throws the same and
  changes nothing more.
\<close>

theorem whereToFilter_effect:
  "schema_after (whereToFilter wh schema) = schema
   \<and> where_after (whereToFilter wh schema) =
       map (checkbox_value schema) (takeWhile (known_column schema) wh)
         @ dropWhile (known_column schema) wh
   \<and> whereToFilter (where_after (whereToFilter wh schema)) schema = whereToFilter wh schema
   \<and> (\<forall>wh2 schema2. wh2 = wh \<and> schema2 = schema \<longrightarrow>
         whereToFilter wh2 schema2 = whereToFilter wh schema)"
proof -
  have after: "where_after (whereToFilter wh schema) =
       map (checkbox_value schema) (takeWhile (known_column schema) wh)
         @ dropWhile (known_column schema) wh"
    by (simp add: whereToFilter_eq)
  have frame: "schema_after (whereToFilter wh schema) = schema"
    by (simp add: whereToFilter_eq)
  have again: "whereToFilter (where_after (whereToFilter wh schema)) schema = whereToFilter wh schema"
    unfolding after by (rule whereToFilter_again)
  from frame after again show ?thesis by blast
qed

theorem whereToFilter_effect_witness:
  "where_after (whereToFilter mixed_where orders_schema) =
     [\<lparr>column = ''active'', operator = equals, wvalue = VStr []\<rparr>,
      \<lparr>column = ''nope'', operator = equals, wvalue = VStr ''a''\<rparr>,
      \<lparr>column = ''active'', operator = not_equals, wvalue = VBool False\<rparr>]
   \<and> filter_result (whereToFilter mixed_where orders_schema) = Inl TypeError
   \<and> schema_after (whereToFilter mixed_where orders_schema) = orders_schema
   \<and> whereToFilter (where_after (whereToFilter mixed_where orders_schema)) orders_schema =
       whereToFilter mixed_where orders_schema"
proof -
  have left: "map (checkbox_value orders_schema) (takeWhile (known_column orders_schema) mixed_where)
         @ dropWhile (known_column orders_schema) mixed_where =
     [\<lparr>column = ''active'', operator = equals, wvalue = VStr []\<rparr>,
      \<lparr>column = ''nope'', operator = equals, wvalue = VStr ''a''\<rparr>,
      \<lparr>column = ''active'', operator = not_equals, wvalue = VBool False\<rparr>]"
    by (simp add: mixed_where_def known_column_def checkbox_value_def orders_schema_def
        id_column_def plain_column_def)
  have thrown: "filter_result (whereToFilter mixed_where orders_schema) = Inl TypeError"
    by (simp add: whereToFilter_def mixed_where_def rewrite_false_def append_term_def render_def
        orders_schema_def id_column_def plain_column_def)
  from whereToFilter_effect [of mixed_where orders_schema] thrown show ?thesis
    unfolding left by blast
qed

text \<open>C7 as stated fails: the call changes the predicate it was given.\<close>

theorem whereToFilter_mutation_counterexample:
  "where_after (whereToFilter
      [\<lparr>column = ''active'', operator = equals, wvalue = VBool False\<rparr>] orders_schema) \<noteq>
   [\<lparr>column = ''active'', operator = equals, wvalue = VBool False\<rparr>]"
  by (simp add: whereToFilter_def rewrite_false_def append_term_def render_def
      orders_schema_def id_column_def plain_column_def)

section \<open>The total count: properties\<close>

text \<open>
  C1 at a table of 250 matching records. The three pages are requested, and the total
  returned is 150: the second full page overwrites the count of the first, and only the
  short page is added.
\<close>

theorem findTotalRecords_250:
  "map_option fst (findTotalRecords (Suc (Suc (Suc n))) env_250 orders_schema [] []) =
     Some (Inr (150, []))"
  by (simp add: findTotalRecords_def whereToFilter_def Let_def try_rethrow_def bind_def lift_def
      ret_def throw_def createRequest_def env_250_def backend_250_def listRecords_def
      blank_page_def orders_schema_def)

lemmas io_defs = bind_def ret_def throw_def lift_def try_rethrow_def createRequest_def diverge_def

lemmas shop_defs = shop_env_def shop_backend_def shop_tables_def body_only_def order_fields_def
  orders_schema_def id_column_def plain_column_def no_pagination_def

section \<open>The schema resolver: properties\<close>

text \<open>
  C2 at a base where the field \<open>CustomerId\<close> of \<open>Orders\<close> links to \<open>Customers\<close>. The
  schema of \<open>Customers\<close> comes back without any relation: the second pass compares the
  linked table of a field with the table that owns the field, not with the target, so
  the link from \<open>Orders\<close> is not recorded as a reverse relation of \<open>Customers\<close>.
\<close>

theorem getSchema_no_reverse_relation:
  "map_option (map_sum id relations \<circ> fst) (getSchema shop_env ''Customers'' log) = Some (Inr [])"
  by (simp add: getSchema_def build_schema_def linked_table_id_def field_column_def io_defs shop_defs)

section \<open>The record mapper: properties\<close>

text \<open>
  C5 at the order \<open>rec123\<close>, whose DATE column \<open>created\<close> holds \<open>2024-01-01\<close>. The list
  path of \<open>findMany\<close> returns the value as the backend gave it; \<open>findOne\<close> returns the
  same record with the value converted by \<open>toISOString\<close>.
\<close>

theorem findMany_dates_unformatted:
  "map_option (map_sum id res_data \<circ> fst)
     (findMany (Suc (Suc n)) shop_env orders_schema [] [] (Some 20) None None log) =
     Some (Inr [Some [(''id'', VStr ''rec123''), (''CustomerId'', VArr [VStr ''rec1'']),
                      (''created'', VStr ''2024-01-01'')]])
   \<and> map_option fst
     (findOne (Suc n) shop_env orders_schema
        [\<lparr>column = ''id'', operator = equals, wvalue = VStr ''rec123''\<rparr>] [] log) =
     Some (Inr (Some [(''id'', VStr ''rec123''), (''CustomerId'', VArr [VStr ''rec1'']),
                      (''created'', VStr ''2024-01-01T00:00:00.000Z'')]))"
  by (simp add: findMany_list_def findTotalRecords_def whereToFilter_def Let_def position_def
      default_fields_def listRecords_def pages_def spread_id_def formatOutput_def formatField_def
      io_defs shop_defs)

section \<open>The pagination adapter: properties\<close>

text \<open>
  C6 at offset 150, limit 20 and the field \<open>created\<close>, on the backend of 250 records.
  After the three requests of the count, two pages of 100 are requested with the fields
  of the call (not without fields), the second from the cursor of the first; the data
  request then carries the number 150 as its offset, not the cursor that the last page
  returned.
\<close>

theorem findMany_offset_150_requests:
  "map_option snd
     (findMany (Suc (Suc (Suc (Suc n)))) env_250 orders_schema [] [''created''] (Some 20) (Some 150) None []) =
   Some [listRecords ''Orders'' \<lparr>pageSize = Some 100, req_fields = [], filterByFormula = [],
           req_sort = None, maxRecords = None, req_offset = None\<rparr>,
         listRecords ''Orders'' \<lparr>pageSize = Some 100, req_fields = [], filterByFormula = [],
           req_sort = None, maxRecords = None, req_offset = Some (Cursor ''c1'')\<rparr>,
         listRecords ''Orders'' \<lparr>pageSize = Some 100, req_fields = [], filterByFormula = [],
           req_sort = None, maxRecords = None, req_offset = Some (Cursor ''c2'')\<rparr>,
         listRecords ''Orders'' \<lparr>pageSize = Some 100, req_fields = [''created''], filterByFormula = [],
           req_sort = Some [], maxRecords = None, req_offset = None\<rparr>,
         listRecords ''Orders'' \<lparr>pageSize = Some 100, req_fields = [''created''], filterByFormula = [],
           req_sort = Some [], maxRecords = None, req_offset = Some (Cursor ''c1'')\<rparr>,
         listRecords ''Orders'' \<lparr>pageSize = Some 20, req_fields = [''created''], filterByFormula = [],
           req_sort = Some [], maxRecords = Some 20, req_offset = Some (Logical 150)\<rparr>]"
  by (simp add: findMany_list_def findTotalRecords_def whereToFilter_def position_def
      default_fields_def listRecords_def pages_def skip_pages.simps Let_def
      io_defs env_250_def backend_250_def blank_page_def orders_schema_def)

section \<open>Find one and find many: properties\<close>

text \<open>
  A single predicate on the primary key whose value is falsy (empty string, 0, \<open>false\<close>,
  \<open>null\<close>): \<open>findOne\<close> takes the value for a missing predicate and calls \<open>findMany\<close>, which
  calls \<open>findOne\<close> again. Neither returns, whatever the fuel.
\<close>

lemma pk_falsy_diverges:
  assumes pk: "primary_key schema = Some (column p)" and falsy: "\<not> truthy (wvalue p)"
  shows "findOne n env schema [p] flds log = None \<and>
         findMany n env schema [p] flds lim off srt log = None"
proof (induction n arbitrary: flds lim off srt log)
  case 0
  show ?case by (simp add: diverge_def)
next
  case (Suc n)
  have ih_many: "\<And>f l o' s lg. findMany n env schema [p] f l o' s lg = None"
    using Suc by simp
  have ih_one: "\<And>f lg. findOne n env schema [p] f lg = None"
    using Suc by simp
  have one: "findOne (Suc n) env schema [p] flds log = None"
    using ih_many pk falsy by (simp add: try_rethrow_def bind_def Let_def)
  have many: "findMany (Suc n) env schema [p] flds lim off srt log = None"
    using ih_one pk by (simp add: bind_def)
  from one many show ?case by simp
qed

text \<open>With a truthy value \<open>findOne\<close> returns, and its result does not depend on the fuel.\<close>

lemma findOne_pk_fuel:
  assumes pk: "primary_key schema = Some (column p)" and t: "truthy (wvalue p)"
  shows "findOne (Suc n) env schema [p] flds log = findOne (Suc m) env schema [p] flds log
       \<and> findOne (Suc n) env schema [p] flds log \<noteq> None"
  using pk t
  by (auto simp: try_rethrow_def bind_def Let_def createRequest_def throw_def lift_def ret_def
      split: outcome.splits option.splits sum.splits prod.splits)

text \<open>
  For a where list of a single predicate on the primary key with operator \<open>equals\<close>,
  \<open>findMany\<close> is \<open>findOne\<close> with the same schema, predicate and fields, followed by
  wrapping: when \<open>findOne\<close> returns a record, \<open>findMany\<close> returns \<open>total = 1\<close> and a
  \<open>data\<close> array whose only element is that record, after the same requests. When the
  value of the predicate is truthy, \<open>findOne\<close> returns with any fuel and with the same
  result.
\<close>

lemma findMany_primary_key_equals:
  assumes "primary_key schema = Some (column p)" and "operator p = equals"
  shows "findMany (Suc n) env schema [p] flds lim off srt log =
           (case findOne n env schema [p] flds log of
              None \<Rightarrow> None
            | Some (Inl e, log') \<Rightarrow> Some (Inl e, log')
            | Some (Inr one, log') \<Rightarrow>
                Some (Inr \<lparr>res_limit = lim, res_offset = off, res_total = 1,
                           res_pagination_total = 1, res_page = pages env lim off 1,
                           res_data = [one]\<rparr>, log'))
         \<and> (truthy (wvalue p) \<longrightarrow>
              findOne (Suc n) env schema [p] flds log \<noteq> None
              \<and> findOne (Suc n) env schema [p] flds log = findOne (Suc m) env schema [p] flds log)"
  using assms findOne_pk_fuel[where schema = schema and p = p and n = n and env = env
      and flds = flds and log = log and m = m]
  by (auto simp: bind_def ret_def split: option.splits sum.splits prod.splits)

lemma findMany_primary_key_equals_example:
  "primary_key orders_schema = Some (column \<lparr>column = ''id'', operator = equals, wvalue = VStr ''rec123''\<rparr>)
   \<and> operator \<lparr>column = ''id'', operator = equals, wvalue = VStr ''rec123''\<rparr> = equals
   \<and> truthy (wvalue \<lparr>column = ''id'', operator = equals, wvalue = VStr ''rec123''\<rparr>)
   \<and> findOne (Suc 0) shop_env orders_schema
         [\<lparr>column = ''id'', operator = equals, wvalue = VStr ''rec123''\<rparr>] [] [] =
       Some (Inr (Some [(''id'', VStr ''rec123''), (''CustomerId'', VArr [VStr ''rec1'']),
                        (''created'', VStr ''2024-01-01T00:00:00.000Z'')]),
             [\<lparr>req_method = GET, endpoint = ''/BaseId/Orders/rec123'', req_data = NoData\<rparr>])
   \<and> findMany (Suc (Suc 0)) shop_env orders_schema
         [\<lparr>column = ''id'', operator = equals, wvalue = VStr ''rec123''\<rparr>] [] (Some 20) None None [] =
       Some (Inr \<lparr>res_limit = Some 20, res_offset = None, res_total = 1, res_pagination_total = 1,
                  res_page = pages shop_env (Some 20) None 1,
                  res_data = [Some [(''id'', VStr ''rec123''), (''CustomerId'', VArr [VStr ''rec1'']),
                                    (''created'', VStr ''2024-01-01T00:00:00.000Z'')]]\<rparr>,
             [\<lparr>req_method = GET, endpoint = ''/BaseId/Orders/rec123'', req_data = NoData\<rparr>])"
proof -
  have pk: "primary_key orders_schema =
      Some (column \<lparr>column = ''id'', operator = equals, wvalue = VStr ''rec123''\<rparr>)"
    by (simp add: orders_schema_def)
  have ope: "operator \<lparr>column = ''id'', operator = equals, wvalue = VStr ''rec123''\<rparr> = equals"
    by simp
  have one: "findOne (Suc 0) shop_env orders_schema
         [\<lparr>column = ''id'', operator = equals, wvalue = VStr ''rec123''\<rparr>] [] [] =
       Some (Inr (Some [(''id'', VStr ''rec123''), (''CustomerId'', VArr [VStr ''rec1'']),
                        (''created'', VStr ''2024-01-01T00:00:00.000Z'')]),
             [\<lparr>req_method = GET, endpoint = ''/BaseId/Orders/rec123'', req_data = NoData\<rparr>])"
    by (simp add: default_fields_def spread_id_def formatOutput_def formatField_def io_defs
        shop_defs)
  have many: "findMany (Suc (Suc 0)) shop_env orders_schema
         [\<lparr>column = ''id'', operator = equals, wvalue = VStr ''rec123''\<rparr>] [] (Some 20) None None [] =
       Some (Inr \<lparr>res_limit = Some 20, res_offset = None, res_total = 1, res_pagination_total = 1,
                  res_page = pages shop_env (Some 20) None 1,
                  res_data = [Some [(''id'', VStr ''rec123''), (''CustomerId'', VArr [VStr ''rec1'']),
                                    (''created'', VStr ''2024-01-01T00:00:00.000Z'')]]\<rparr>,
             [\<lparr>req_method = GET, endpoint = ''/BaseId/Orders/rec123'', req_data = NoData\<rparr>])"
    using findMany_primary_key_equals [OF pk ope, of "Suc 0" shop_env "[]" "Some 20" None None "[]" 0]
    by (simp only: one option.case prod.case sum.case)
  from pk one many show ?thesis by simp
qed

text \<open>
  C3 at an \<open>equals\<close> predicate on the primary key whose value is the empty string. The
  claim has \<open>findMany\<close> return \<open>total = 1\<close> and the record of \<open>findOne\<close>; neither
  \<open>findMany\<close> nor \<open>findOne\<close> yields a result, whatever the fuel, and no request is sent.
\<close>

theorem findMany_equals_empty_id:
  "findMany n env orders_schema [\<lparr>column = ''id'', operator = equals, wvalue = VStr []\<rparr>]
     flds lim off srt log = None
   \<and> findOne n env orders_schema [\<lparr>column = ''id'', operator = equals, wvalue = VStr []\<rparr>]
     flds log = None"
  using pk_falsy_diverges[where schema = orders_schema
      and p = "\<lparr>column = ''id'', operator = equals, wvalue = VStr []\<rparr>"]
  by (simp add: orders_schema_def)

text \<open>On this path the operator of the predicate is never read.\<close>

lemma findMany_pk_operator_irrelevant:
  assumes "primary_key schema = Some pk"
  shows "findMany n env schema [\<lparr>column = pk, operator = ope, wvalue = v\<rparr>] flds lim off srt log =
         findMany n env schema [\<lparr>column = pk, operator = equals, wvalue = v\<rparr>] flds lim off srt log"
proof (cases "truthy v")
  case False
  with assms show ?thesis
    using pk_falsy_diverges[where schema = schema and p = "\<lparr>column = pk, operator = ope, wvalue = v\<rparr>"]
      pk_falsy_diverges[where schema = schema and p = "\<lparr>column = pk, operator = equals, wvalue = v\<rparr>"]
    by simp
next
  case True
  show ?thesis
  proof (cases n)
    case 0
    then show ?thesis by simp
  next
    case (Suc k)
    show ?thesis
    proof (cases k)
      case 0
      with Suc assms show ?thesis by (simp add: bind_def diverge_def)
    next
      case (Suc j)
      with \<open>n = Suc k\<close> assms True show ?thesis by (simp add: Let_def)
    qed
  qed
qed

text \<open>
  C10 at a predicate on the primary key whose operator is \<open>gt\<close> and whose value is the
  empty string. The claim has the record fetched directly and \<open>total = 1\<close> reported
  whatever the operator; the call sends no request and yields no result, whatever the
  fuel: the recursion between \<open>findMany\<close> and \<open>findOne\<close> has no exit.
\<close>

theorem findMany_falsy_id_diverges:
  "findMany n env orders_schema [\<lparr>column = ''id'', operator = gt, wvalue = VStr []\<rparr>] flds lim off srt log = None"
  using pk_falsy_diverges[where schema = orders_schema
      and p = "\<lparr>column = ''id'', operator = gt, wvalue = VStr []\<rparr>"]
  by (simp add: orders_schema_def)

section \<open>The relation resolver: properties\<close>

text \<open>
  C8 at \<open>CustomerId = 'rec999'\<close>, a customer that does not exist. The call fails before
  any write: the schema of \<open>Customers\<close> and the record are requested, no create request is
  sent. The error is not \<open>Linked record not found\<close>: the lookup of the missing record
  throws inside \<open>findOne\<close> (here the TypeError of reading \<open>id\<close> of an undefined
  response), and that error, wrapped by \<open>findOne\<close> and by \<open>createOne\<close>, is what the
  caller gets.
\<close>

theorem createOne_missing_link:
  "createOne (Suc n) shop_env orders_schema [(''CustomerId'', VStr ''rec999'')] [] =
     Some (Inl (Error (Error TypeError)),
           [\<lparr>req_method = GET, endpoint = ''/meta/bases/BaseId/tables'', req_data = NoData\<rparr>,
            \<lparr>req_method = GET, endpoint = ''/BaseId/Customers/rec999'', req_data = NoData\<rparr>])"
  by (simp add: createOne_def get_prop_def getSchema_def build_schema_def linked_table_id_def
      field_column_def io_defs shop_defs)

text \<open>Results of operations: rules for the combinators.\<close>

lemma returns_only_bind:
  assumes m: "returns_only m (\<lambda>r. case r of Inl e \<Rightarrow> Q (Inl e) | Inr x \<Rightarrow> returns_only (f x) Q)"
  shows "returns_only (bind m f) Q"
  unfolding returns_only_def
proof (intro allI impI)
  fix log r log'
  assume run: "bind m f log = Some (r, log')"
  show "Q r"
  proof (cases "m log")
    case None
    with run show ?thesis by (simp add: bind_def)
  next
    case (Some a)
    obtain r1 l where a: "a = (r1, l)" by (cases a)
    from m Some a have q: "case r1 of Inl e \<Rightarrow> Q (Inl e) | Inr x \<Rightarrow> returns_only (f x) Q"
      unfolding returns_only_def by blast
    show ?thesis
    proof (cases r1)
      case (Inl e)
      with run Some a q show ?thesis by (simp add: bind_def)
    next
      case (Inr x)
      with run Some a have "f x l = Some (r, log')" by (simp add: bind_def)
      moreover from q Inr have "returns_only (f x) Q" by simp
      ultimately show ?thesis unfolding returns_only_def by blast
    qed
  qed
qed

lemma returns_only_weaken:
  "returns_only m Q \<Longrightarrow> (\<And>r. Q r \<Longrightarrow> Q' r) \<Longrightarrow> returns_only m Q'"
  unfolding returns_only_def by blast

lemma returns_only_ret: "returns_only (ret x) Q = Q (Inr x)"
  by (simp add: returns_only_def ret_def)

lemma returns_only_throw: "returns_only (throw e) Q = Q (Inl e)"
  by (simp add: returns_only_def throw_def)

lemma returns_only_lift: "returns_only (lift r) Q = Q r"
  by (simp add: returns_only_def lift_def)

lemma returns_only_createRequest:
  "Q (Inl TypeError) \<Longrightarrow> (\<And>res. Q (Inr res)) \<Longrightarrow> returns_only (createRequest env req) Q"
  by (auto simp: returns_only_def createRequest_def split: outcome.splits)

lemma returns_only_try:
  assumes m: "returns_only m (\<lambda>r. case r of Inl e \<Rightarrow> Q (Inl (Error e)) | Inr x \<Rightarrow> Q (Inr x))"
  shows "returns_only (try_rethrow m) Q"
  unfolding returns_only_def
proof (intro allI impI)
  fix log r log'
  assume run: "try_rethrow m log = Some (r, log')"
  then obtain r1 where inner: "m log = Some (r1, log')"
    and r: "r = (case r1 of Inl e \<Rightarrow> Inl (Error e) | Inr x \<Rightarrow> Inr x)"
    by (auto simp: try_rethrow_def split: option.splits sum.splits prod.splits)
  from m inner have "case r1 of Inl e \<Rightarrow> Q (Inl (Error e)) | Inr x \<Rightarrow> Q (Inr x)"
    unfolding returns_only_def by blast
  with r show "Q r" by (cases r1) simp_all
qed

lemma forward_fields_cols:
  "forward_fields tables target flds cols rels = Inr (cols', rels') \<Longrightarrow> \<exists>more. cols' = cols @ more"
proof (induction flds arbitrary: cols rels)
  case Nil
  then show ?case by simp
next
  case (Cons fld flds)
  show ?case
  proof (cases "f_type fld = AT_MULTIPLE_RECORD_LINKS")
    case False
    with Cons.prems have "forward_fields tables target flds (cols @ [field_column fld]) rels = Inr (cols', rels')"
      by simp
    from Cons.IH[OF this] show ?thesis by auto
  next
    case True
    with Cons.prems obtain rels1 where
      "forward_fields tables target flds (cols @ [field_column fld]) rels1 = Inr (cols', rels')"
      by (simp split: sum.splits option.splits)
    from Cons.IH[OF this] show ?thesis by auto
  qed
qed

lemma build_schema_pk:
  assumes "build_schema tables target = Inr s"
  shows "primary_key s = Some ''id''"
proof -
  from assms obtain tbl where tbl: "find (\<lambda>t. t_name t = target) tables = Some tbl"
    by (auto simp: build_schema_def split: option.splits)
  with assms obtain cols rels where
    fwd: "forward_fields tables target (t_fields tbl) [id_column] [] = Inr (cols, rels)"
    by (auto simp: build_schema_def split: sum.splits)
  with assms tbl have pk: "primary_key s = map_option col_field (find col_primary_key cols)"
    by (auto simp: build_schema_def split: sum.splits)
  from forward_fields_cols[OF fwd] obtain more where "cols = id_column # more" by auto
  with pk show ?thesis by (simp add: id_column_def)
qed

lemma getSchema_returns:
  "returns_only (getSchema env target)
     (\<lambda>r. case r of Inl e \<Rightarrow> wrapped e | Inr s \<Rightarrow> primary_key s = Some ''id'')"
  unfolding getSchema_def
  apply (rule returns_only_try)
  apply (rule returns_only_bind)
  apply (rule returns_only_createRequest)
   apply (simp_all add: wrapped_def returns_only_throw returns_only_lift split: option.splits sum.splits)
  apply (auto dest: build_schema_pk)
  done

text \<open>
  A lookup by \<open>id\<close> in a schema whose primary key is \<open>id\<close> returns a record, fails with a
  wrapped error, or does not return: it never returns \<open>undefined\<close>.
\<close>

lemma findOne_id_returns:
  assumes pk: "primary_key s = Some ''id''"
  shows "returns_only (findOne n env s [\<lparr>column = ''id'', operator = ope, wvalue = v\<rparr>] flds)
     (\<lambda>r. case r of Inl e \<Rightarrow> wrapped e | Inr x \<Rightarrow> x \<noteq> None)"
proof (cases "truthy v")
  case False
  then show ?thesis
    using pk_falsy_diverges[where schema = s and p = "\<lparr>column = ''id'', operator = ope, wvalue = v\<rparr>"] pk
    by (simp add: returns_only_def)
next
  case True
  show ?thesis
  proof (cases n)
    case 0
    then show ?thesis by (simp add: returns_only_def diverge_def)
  next
    case (Suc k)
    have "returns_only (findOne (Suc k) env s [\<lparr>column = ''id'', operator = ope, wvalue = v\<rparr>] flds)
       (\<lambda>r. case r of Inl e \<Rightarrow> wrapped e | Inr x \<Rightarrow> x \<noteq> None)"
      using True pk
      apply (simp add: Let_def)
      apply (rule returns_only_try)
      apply (rule returns_only_bind)
      apply (rule returns_only_createRequest)
       apply (simp_all add: wrapped_def returns_only_throw split: option.splits)
      apply (intro allI impI conjI)
      apply (rule returns_only_bind)
      apply (simp add: returns_only_lift returns_only_ret split: sum.splits)
      done
    with Suc show ?thesis by simp
  qed
qed

lemma check_links_returns:
  "returns_only (check_links n env linkedTable idents) (\<lambda>r. r \<noteq> Inl Linked_record_not_found)"
proof (induction idents)
  case Nil
  show ?case by (simp add: returns_only_def ret_def)
next
  case (Cons ident idents)
  show ?case
  proof (cases linkedTable)
    case None
    then show ?thesis by (simp add: returns_only_def throw_def)
  next
    case (Some rel)
    have inner: "returns_only
        (bind (findOne n env linkedSchema [\<lparr>column = ''id'', operator = equals, wvalue = ident\<rparr>] [])
           (\<lambda>linkedRecord. case linkedRecord of None \<Rightarrow> throw Linked_record_not_found
              | Some found \<Rightarrow> check_links n env linkedTable idents))
        (\<lambda>r. r \<noteq> Inl Linked_record_not_found)"
      if "primary_key linkedSchema = Some ''id''" for linkedSchema
      apply (rule returns_only_bind)
      apply (rule returns_only_weaken[OF findOne_id_returns[OF that]])
      using Cons by (auto simp: wrapped_def split: sum.splits option.splits)
    show ?thesis
      unfolding Some check_links.simps option.case
      apply (rule returns_only_bind)
      apply (rule returns_only_weaken[OF getSchema_returns])
      using inner Some by (auto simp: wrapped_def split: sum.splits)
  qed
qed

lemma check_relations_returns:
  "returns_only (check_relations n env schema cols d) (\<lambda>r. r \<noteq> Inl Linked_record_not_found)"
proof (induction cols arbitrary: d)
  case Nil
  show ?case by (simp add: returns_only_def ret_def)
next
  case (Cons col cols)
  show ?case
    unfolding check_relations.simps Let_def
    by (auto intro!: returns_only_bind returns_only_weaken[OF check_links_returns] Cons split: sum.splits)
qed

lemma create_request_returns:
  "returns_only
     (bind (createRequest env req)
        (\<lambda>res. case res of
                  None \<Rightarrow> throw TypeError
                | Some r \<Rightarrow>
                    (case r_records r of
                       None \<Rightarrow> throw Record_not_created
                     | Some [] \<Rightarrow> throw Record_not_created
                     | Some (rcd # rcds) \<Rightarrow> ret (spread_id (rec_id rcd) (rec_fields rcd)))))
     (\<lambda>r. r \<noteq> Inl Linked_record_not_found)"
  unfolding returns_only_def bind_def createRequest_def throw_def ret_def
  by (auto split: option.splits sum.splits prod.splits outcome.splits list.splits)

lemma createOne_body_returns:
  "returns_only
     (bind (check_relations n env schema (columns schema) d)
        (\<lambda>d'. bind (createRequest env
                      \<lparr>req_method = POST, endpoint = ''/BaseId/'' @ table schema,
                       req_data = CreateRecords d'\<rparr>)
                 (\<lambda>res. case res of
                           None \<Rightarrow> throw TypeError
                         | Some r \<Rightarrow>
                             (case r_records r of
                                None \<Rightarrow> throw Record_not_created
                              | Some [] \<Rightarrow> throw Record_not_created
                              | Some (rcd # rcds) \<Rightarrow> ret (spread_id (rec_id rcd) (rec_fields rcd))))))
     (\<lambda>r. r \<noteq> Inl Linked_record_not_found)"
  apply (rule returns_only_bind)
  apply (rule returns_only_weaken[OF check_relations_returns])
  using create_request_returns by (auto split: sum.splits)

text \<open>
  Whatever the backend, the schema and the data, \<open>createOne\<close> does not fail with
  \<open>Linked record not found\<close>: the test \<open>!linkedRecord\<close> is never reached with an
  \<open>undefined\<close> record.
\<close>

lemma createOne_never_linked_record_not_found:
  "createOne n env schema d log \<noteq> Some (Inl (Error Linked_record_not_found), log')"
  using createOne_body_returns[of n env schema d]
  unfolding createOne_def returns_only_def try_rethrow_def
  by (auto split: option.splits sum.splits prod.splits)

section \<open>Soft delete: properties\<close>






































end
